theory Spec2Isabelle
  imports Main "HOL-Library.Word" "HOL-Library.Sublist" "HOL-Library.AList"
    "HOL-Library.Char_ord" "HOL-Library.List_Lexorder"
begin

chapter \<open>The skill-sync scripts: registry, upstream check, diff generator, patch applier\<close>

text \<open>
  A shallow embedding of the four scripts under \<^verbatim>\<open>skill-sync/scripts\<close>. Python
  exceptions are values of \<open>py_exception\<close>; a function that can raise returns
  \<open>py_exception + 'a\<close> with \<open>Inl\<close> for the raise. State that the scripts keep
  outside the process (the registry file, the file system) is passed in and returned.
\<close>

section \<open>Exceptions\<close>

datatype py_exception =
    ValueError string
  | KeyError string
  | TypeError string
  | CalledProcessError int "string list" string
  | OSError string
  | SameFileError
  | ShutilError

section \<open>Registry (registry.py)\<close>

text \<open>
  A registry entry is a JSON object, which Python reads as a \<^verbatim>\<open>dict\<close>: an association
  list in insertion order. \<^verbatim>\<open>entry[k]\<close> is \<open>map_of entry k\<close> (a \<^verbatim>\<open>KeyError\<close> when it
  is \<open>None\<close>), \<^verbatim>\<open>k in entry\<close> is \<open>map_of entry k \<noteq> None\<close>, and \<^verbatim>\<open>entry[k] = v\<close> is
  \<open>AList.update k v entry\<close>. The values of an entry are strings.

  The persisted registry is the file at \<^verbatim>\<open>self.path\<close>: \<open>None\<close> when the file does not
  exist, \<open>Some data\<close> when it holds the JSON document \<open>data\<close>. A file that is not a
  JSON document of this shape is outside the model.
\<close>

type_synonym entry = "(string \<times> string) list"

record registry_data =
  version :: int
  skills :: "entry list"

type_synonym registry_file = "registry_data option"

definition registry_read :: "registry_file \<Rightarrow> registry_data" where
  "registry_read st = (case st of None \<Rightarrow> \<lparr>version = 1, skills = []\<rparr> | Some d \<Rightarrow> d)"

definition registry_write :: "registry_data \<Rightarrow> registry_file \<Rightarrow> registry_file" where
  "registry_write d st = Some d"

definition registry_list :: "registry_file \<Rightarrow> entry list \<times> registry_file" where
  "registry_list st =
     (let d = registry_read st;
          st' = (if st = None then registry_write d st else st)
      in (skills d, st'))"

fun registry_get_loop :: "entry list \<Rightarrow> string \<Rightarrow> py_exception + entry option" where
  "registry_get_loop [] name = Inr None"
| "registry_get_loop (e # es) name =
     (case map_of e ''name'' of
        None \<Rightarrow> Inl (KeyError ''name'')
      | Some n \<Rightarrow> if n = name then Inr (Some e) else registry_get_loop es name)"

definition registry_get :: "registry_file \<Rightarrow> string \<Rightarrow> py_exception + entry option" where
  "registry_get st name = registry_get_loop (skills (registry_read st)) name"

text \<open>The first loop of \<^verbatim>\<open>add\<close>: it raises at the first entry that carries the name.\<close>

fun add_check :: "entry list \<Rightarrow> string \<Rightarrow> py_exception + unit" where
  "add_check [] name = Inr ()"
| "add_check (e # es) name =
     (case map_of e ''name'' of
        None \<Rightarrow> Inl (KeyError ''name'')
      | Some n \<Rightarrow>
          if n = name
          then Inl (ValueError (''Skill '' @ [CHR 0x27] @ name @ [CHR 0x27] @ '' is already registered''))
          else add_check es name)"

text \<open>\<open>now\<close> is \<^verbatim>\<open>datetime.now(timezone.utc).isoformat()\<close>, read once by the caller.\<close>

text \<open>The keyword arguments of \<^verbatim>\<open>add\<close>.\<close>

record add_args =
  arg_name :: string
  arg_github_repo :: string
  arg_repo_subpath :: string
  arg_local_path :: string
  arg_last_checked_commit :: string
  arg_baseline_commit :: string
  arg_adaptation_notes :: string
  arg_adaptation_diff :: string

definition registry_add ::
  "registry_file \<Rightarrow> add_args \<Rightarrow> string \<Rightarrow> (py_exception + entry) \<times> registry_file" where
  "registry_add st a now =
     (let d = registry_read st in
      case add_check (skills d) (arg_name a) of
        Inl ex \<Rightarrow> (Inl ex, st)
      | Inr _ \<Rightarrow>
          (let e = [(''name'', arg_name a),
                    (''github_repo'', arg_github_repo a),
                    (''repo_subpath'', arg_repo_subpath a),
                    (''local_path'', arg_local_path a),
                    (''last_checked_commit'', arg_last_checked_commit a),
                    (''baseline_commit'', arg_baseline_commit a),
                    (''adaptation_notes'', arg_adaptation_notes a),
                    (''adaptation_diff'', arg_adaptation_diff a),
                    (''registered_at'', now),
                    (''last_updated_at'', now)];
               d' = d\<lparr>skills := skills d @ [e]\<rparr>
           in (Inr e, registry_write d' st)))"

text \<open>The inner loop of \<^verbatim>\<open>update\<close> over \<^verbatim>\<open>fields.items()\<close>: valid keys are assigned
  (in memory) until an unknown key raises.\<close>

fun apply_fields :: "entry \<Rightarrow> (string \<times> string) list \<Rightarrow> py_exception + entry" where
  "apply_fields e [] = Inr e"
| "apply_fields e ((k, v) # kvs) =
     (if map_of e k = None then Inl (KeyError (''Unknown field: '' @ k))
      else apply_fields (AList.update k v e) kvs)"

text \<open>The outer loop of \<^verbatim>\<open>update\<close>: the first entry that carries the name is updated in
  place; the result is the new list of entries and the updated entry.\<close>

fun update_loop ::
  "entry list \<Rightarrow> string \<Rightarrow> (string \<times> string) list \<Rightarrow> string \<Rightarrow> py_exception + (entry list \<times> entry)" where
  "update_loop [] name flds now =
     Inl (KeyError (''Skill '' @ [CHR 0x27] @ name @ [CHR 0x27] @ '' not found''))"
| "update_loop (e # es) name flds now =
     (case map_of e ''name'' of
        None \<Rightarrow> Inl (KeyError ''name'')
      | Some n \<Rightarrow>
          if n = name then
            (case apply_fields e flds of
               Inl ex \<Rightarrow> Inl ex
             | Inr e' \<Rightarrow>
                 (let e'' = AList.update ''last_updated_at'' now e' in Inr (e'' # es, e'')))
          else
            (case update_loop es name flds now of
               Inl ex \<Rightarrow> Inl ex
             | Inr (es', r) \<Rightarrow> Inr (e # es', r)))"

text \<open>\<^verbatim>\<open>update(self, name, **fields)\<close>: a keyword \<^verbatim>\<open>name\<close> or \<^verbatim>\<open>self\<close> among the fields
  collides with the positional parameters and Python raises \<^verbatim>\<open>TypeError\<close> at the call.\<close>

definition registry_update ::
  "registry_file \<Rightarrow> string \<Rightarrow> (string \<times> string) list \<Rightarrow> string
     \<Rightarrow> (py_exception + entry) \<times> registry_file" where
  "registry_update st name flds now =
     (if map_of flds ''name'' \<noteq> None \<or> map_of flds ''self'' \<noteq> None
      then (Inl (TypeError ''got multiple values for argument''), st)
      else
        (let d = registry_read st in
         case update_loop (skills d) name flds now of
           Inl ex \<Rightarrow> (Inl ex, st)
         | Inr (es', e) \<Rightarrow> (Inr e, registry_write (d\<lparr>skills := es'\<rparr>) st)))"

fun remove_filter :: "entry list \<Rightarrow> string \<Rightarrow> py_exception + entry list" where
  "remove_filter [] name = Inr []"
| "remove_filter (e # es) name =
     (case map_of e ''name'' of
        None \<Rightarrow> Inl (KeyError ''name'')
      | Some n \<Rightarrow>
          (case remove_filter es name of
             Inl ex \<Rightarrow> Inl ex
           | Inr es' \<Rightarrow> Inr (if n \<noteq> name then e # es' else es')))"

definition registry_remove :: "registry_file \<Rightarrow> string \<Rightarrow> (py_exception + unit) \<times> registry_file" where
  "registry_remove st name =
     (let d = registry_read st in
      case remove_filter (skills d) name of
        Inl ex \<Rightarrow> (Inl ex, st)
      | Inr es' \<Rightarrow> (Inr (), registry_write (d\<lparr>skills := es'\<rparr>) st))"

text \<open>A registry with one entry, and arguments that register its name again.\<close>

definition dup_registry :: registry_file where
  "dup_registry = Some \<lparr>version = 1, skills = [[(''name'', ''dup''), (''github_repo'', ''r'')]]\<rparr>"

definition dup_args :: add_args where
  "dup_args = \<lparr>arg_name = ''dup'', arg_github_repo = ''r2'', arg_repo_subpath = [],
     arg_local_path = ''/tmp/dup'', arg_last_checked_commit = ''abc'', arg_baseline_commit = ''abc'',
     arg_adaptation_notes = [], arg_adaptation_diff = []\<rparr>"

subsection \<open>Registry: duplicate names and unknown fields\<close>

lemma add_check_raises:
  "\<exists>e \<in> set es. map_of e ''name'' = Some name \<Longrightarrow> \<exists>ex. add_check es name = Inl ex"
  by (induction es) (auto split: option.splits)

text \<open>
  C9. When the registry holds an entry named \<open>name\<close>, \<^verbatim>\<open>Registry.add\<close> with that name
  raises, and the persisted registry is the one it started from: nothing is written, so
  the existing entry is as it was and no entry is added.
\<close>

theorem registry_add_duplicate:
  assumes "\<exists>e \<in> set (skills (registry_read st)). map_of e ''name'' = Some (arg_name a)"
  shows "\<exists>ex. registry_add st a now = (Inl ex, st)"
proof -
  from add_check_raises [OF assms] obtain ex
    where "add_check (skills (registry_read st)) (arg_name a) = Inl ex" ..
  then show ?thesis
    by (simp add: registry_add_def Let_def)
qed

theorem registry_add_duplicate_witness:
  "(\<exists>e \<in> set (skills (registry_read dup_registry)). map_of e ''name'' = Some (arg_name dup_args))
   \<and> (\<exists>ex. registry_add dup_registry dup_args ''t1'' = (Inl ex, dup_registry))"
proof -
  have h: "\<exists>e \<in> set (skills (registry_read dup_registry)). map_of e ''name'' = Some (arg_name dup_args)"
    by (simp add: registry_read_def dup_registry_def dup_args_def)
  from h registry_add_duplicate [OF h] show ?thesis by blast
qed

lemma apply_fields_unknown:
  "\<exists>k \<in> fst ` set flds. map_of e k = None \<Longrightarrow> \<exists>ex. apply_fields e flds = Inl ex"
proof (induction flds arbitrary: e)
  case Nil
  then show ?case by simp
next
  case (Cons kv flds)
  obtain k v where kv: "kv = (k, v)" by (cases kv)
  show ?case
  proof (cases "map_of e k = None")
    case True
    then show ?thesis by (simp add: kv)
  next
    case False
    with Cons.prems kv obtain k' where k': "k' \<in> fst ` set flds" "map_of e k' = None"
      by auto
    with False have "k' \<noteq> k" by auto
    then have "map_of (AList.update k v e) k' = None"
      using k'(2) by (simp add: update_conv')
    with k'(1) have "\<exists>j \<in> fst ` set flds. map_of (AList.update k v e) j = None"
      by blast
    from Cons.IH [OF this] False show ?thesis by (simp add: kv)
  qed
qed

lemma update_loop_raises:
  assumes "\<forall>e \<in> set es. map_of e ''name'' = Some name \<longrightarrow> (\<exists>k \<in> fst ` set flds. map_of e k = None)"
  shows "\<exists>ex. update_loop es name flds now = Inl ex"
  using assms
proof (induction es)
  case Nil
  then show ?case by simp
next
  case (Cons e es)
  then obtain ex where ex: "update_loop es name flds now = Inl ex" by auto
  show ?case
  proof (cases "map_of e ''name''")
    case None
    then show ?thesis by simp
  next
    case (Some n)
    show ?thesis
    proof (cases "n = name")
      case True
      with Some Cons.prems have "\<exists>k \<in> fst ` set flds. map_of e k = None" by simp
      from apply_fields_unknown [OF this] Some True show ?thesis by auto
    next
      case False
      with Some ex show ?thesis by simp
    qed
  qed
qed

text \<open>
  C10. When the registry holds an entry named \<open>name\<close> and the field mapping has a key that
  the entry named \<open>name\<close> does not have, \<^verbatim>\<open>Registry.update\<close> raises and the persisted
  registry is the one it started from, wherever the unknown key stands among the fields:
  the file is written only after every field has been checked and assigned.
\<close>

theorem registry_update_unknown_field:
  assumes "\<exists>e \<in> set (skills (registry_read st)). map_of e ''name'' = Some name"
    and "\<forall>e \<in> set (skills (registry_read st)).
           map_of e ''name'' = Some name \<longrightarrow> (\<exists>k \<in> fst ` set flds. map_of e k = None)"
  shows "\<exists>ex. registry_update st name flds now = (Inl ex, st)"
proof (cases "map_of flds ''name'' \<noteq> None \<or> map_of flds ''self'' \<noteq> None")
  case True
  then show ?thesis by (simp add: registry_update_def)
next
  case False
  from update_loop_raises [OF assms(2)] obtain ex
    where "update_loop (skills (registry_read st)) name flds now = Inl ex" ..
  with False show ?thesis by (simp add: registry_update_def Let_def)
qed

theorem registry_update_unknown_field_witness:
  "\<exists>ex. registry_update
      (Some \<lparr>version = 1, skills = [[(''name'', ''s''), (''adaptation_notes'', ''old'')]]\<rparr>)
      ''s'' [(''adaptation_notes'', ''new''), (''bogus'', ''x'')] ''t1''
    = (Inl ex, Some \<lparr>version = 1, skills = [[(''name'', ''s''), (''adaptation_notes'', ''old'')]]\<rparr>)"
  by (rule registry_update_unknown_field) (simp_all add: registry_read_def)

section \<open>The file system\<close>

text \<open>
  The scripts work on the file system through \<^verbatim>\<open>os\<close>, \<^verbatim>\<open>shutil\<close> and \<^verbatim>\<open>open\<close>. The
  file system is an explicit store: a list of the absolute paths that exist, each with
  its node, in the order in which a directory scan returns them. A path is the list of
  its components below the root; the root itself always exists and is a directory.
  Regular files and directories are modelled; symbolic links, permission bits and
  timestamps are not. A library call that raises returns \<open>Inl\<close>; the store it leaves
  behind after a raise is not modelled.
\<close>

type_synonym byte = "8 word"

type_synonym path = "string list"

datatype node = File "byte list" | Dir

type_synonym filesystem = "(path \<times> node) list"

definition lookup :: "filesystem \<Rightarrow> path \<Rightarrow> node option" where
  "lookup fs p = (if p = [] then Some Dir else map_of fs p)"



text \<open>\<^verbatim>\<open>open(p, "rb").read()\<close>.\<close>

definition read_bytes :: "filesystem \<Rightarrow> path \<Rightarrow> py_exception + byte list" where
  "read_bytes fs p =
     (case lookup fs p of
        None \<Rightarrow> Inl (OSError ''FileNotFoundError'')
      | Some Dir \<Rightarrow> Inl (OSError ''IsADirectoryError'')
      | Some (File bs) \<Rightarrow> Inr bs)"

text \<open>
  \<^verbatim>\<open>os.makedirs(p, exist_ok=True)\<close>: every missing directory on the way to \<open>p\<close> is
  created, top down; it raises when a component on the way, or \<open>p\<close> itself, is a file.
\<close>

fun makedirs_from :: "filesystem \<Rightarrow> path \<Rightarrow> path \<Rightarrow> py_exception + filesystem" where
  "makedirs_from fs base [] = Inr fs"
| "makedirs_from fs base (c # cs) =
     (case lookup fs (base @ [c]) of
        Some Dir \<Rightarrow> makedirs_from fs (base @ [c]) cs
      | Some (File _) \<Rightarrow> Inl (OSError ''NotADirectoryError'')
      | None \<Rightarrow> makedirs_from (fs @ [(base @ [c], Dir)]) (base @ [c]) cs)"

definition makedirs :: "filesystem \<Rightarrow> path \<Rightarrow> py_exception + filesystem" where
  "makedirs fs p = makedirs_from fs [] p"

text \<open>\<^verbatim>\<open>shutil.rmtree(p)\<close>: \<open>p\<close> must be a directory; it goes with everything below it.\<close>

definition rmtree :: "filesystem \<Rightarrow> path \<Rightarrow> py_exception + filesystem" where
  "rmtree fs p =
     (case lookup fs p of
        None \<Rightarrow> Inl (OSError ''FileNotFoundError'')
      | Some (File _) \<Rightarrow> Inl (OSError ''NotADirectoryError'')
      | Some Dir \<Rightarrow>
          if p = [] then Inl (OSError ''PermissionError'')
          else Inr (filter (\<lambda>(q, n). \<not> prefix p q) fs))"

subsection \<open>Path strings\<close>

text \<open>
  The scripts hold paths as strings and hand them to the library as they are. A file-system
  call resolves the string as the kernel does, one component after the other from the
  root (the working directory of the model is the root): an empty component and \<^verbatim>\<open>.\<close>
  stay where they are, \<^verbatim>\<open>..\<close> steps up, a name steps down. A name that is followed by
  further components must be a directory. With \<open>mk\<close> set, a missing directory on the way
  is created, as \<^verbatim>\<open>os.makedirs\<close> does; the last name is returned as it is found. The
  result is the store and the path reached. The empty string names nothing, and a string
  with a null character is refused by every call before the file system is asked
  (\<^verbatim>\<open>os.path.exists\<close> answers \<^verbatim>\<open>False\<close> for it). Limits on the length of a path are not
  modelled.
\<close>

fun split_slash :: "string \<Rightarrow> string list" where
  "split_slash [] = [[]]"
| "split_slash (c # cs) =
     (if c = CHR ''/'' then [] # split_slash cs
      else (case split_slash cs of [] \<Rightarrow> [[c]] | w # ws \<Rightarrow> (c # w) # ws))"

fun walk_path ::
  "bool \<Rightarrow> filesystem \<Rightarrow> path \<Rightarrow> string list \<Rightarrow> py_exception + (filesystem \<times> path)" where
  "walk_path mk fs cur [] = Inr (fs, cur)"
| "walk_path mk fs cur (c # cs) =
     (if c = [] \<or> c = ''.'' then walk_path mk fs cur cs
      else if c = ''..'' then walk_path mk fs (butlast cur) cs
      else if cs = [] then Inr (fs, cur @ [c])
      else
        (case lookup fs (cur @ [c]) of
           Some Dir \<Rightarrow> walk_path mk fs (cur @ [c]) cs
         | Some (File bs) \<Rightarrow> Inl (OSError ''NotADirectoryError'')
         | None \<Rightarrow>
             if mk then walk_path mk (fs @ [(cur @ [c], Dir)]) (cur @ [c]) cs
             else Inl (OSError ''FileNotFoundError'')))"

definition resolve :: "filesystem \<Rightarrow> string \<Rightarrow> py_exception + path" where
  "resolve fs s =
     (if s = [] then Inl (OSError ''FileNotFoundError'')
      else if CHR 0x00 \<in> set s then Inl (ValueError ''embedded null byte'')
      else case walk_path False fs [] (split_slash s) of
             Inl ex \<Rightarrow> Inl ex
           | Inr (fs', p) \<Rightarrow> Inr p)"

text \<open>\<^verbatim>\<open>os.path.exists(s)\<close>: the path resolves and something is there.\<close>

definition os_path_exists :: "filesystem \<Rightarrow> string \<Rightarrow> bool" where
  "os_path_exists fs s = (case resolve fs s of Inl ex \<Rightarrow> False | Inr p \<Rightarrow> lookup fs p \<noteq> None)"

text \<open>The last component of a path string that is not empty (slashes at the end do not
  count), and the names among its components.\<close>

definition last_component :: "string \<Rightarrow> string" where
  "last_component s = (case filter (\<lambda>c. c \<noteq> []) (split_slash s) of [] \<Rightarrow> [] | c # cs \<Rightarrow> last (c # cs))"



text \<open>
  \<^verbatim>\<open>shutil.rmtree(s)\<close>: the directory is emptied and then removed with \<^verbatim>\<open>os.rmdir(s)\<close>,
  which the kernel refuses for a path whose last component is \<^verbatim>\<open>.\<close> or \<^verbatim>\<open>..\<close>.
\<close>

definition rmtree_str :: "filesystem \<Rightarrow> string \<Rightarrow> py_exception + filesystem" where
  "rmtree_str fs s =
     (case resolve fs s of
        Inl ex \<Rightarrow> Inl ex
      | Inr p \<Rightarrow>
          (case rmtree fs p of
             Inl ex \<Rightarrow> Inl ex
           | Inr fs' \<Rightarrow>
               if last_component s = ''.'' \<or> last_component s = ''..''
               then Inl (OSError ''Invalid argument'')
               else Inr fs'))"

text \<open>\<^verbatim>\<open>os.makedirs(s)\<close> without \<^verbatim>\<open>exist_ok\<close>: it raises when the path exists already; the
  result is the store and the directory made.\<close>

definition makedirs_str :: "filesystem \<Rightarrow> string \<Rightarrow> py_exception + (filesystem \<times> path)" where
  "makedirs_str fs s =
     (if s = [] then Inl (OSError ''FileNotFoundError'')
      else if CHR 0x00 \<in> set s then Inl (ValueError ''embedded null byte'')
      else case walk_path True fs [] (split_slash s) of
             Inl ex \<Rightarrow> Inl ex
           | Inr (fs1, p) \<Rightarrow>
               if lookup fs p \<noteq> None then Inl (OSError ''FileExistsError'')
               else if lookup fs1 p = None then Inr (fs1 @ [(p, Dir)], p)
               else Inr (fs1, p))"

text \<open>
  \<^verbatim>\<open>shutil.copytree(src, dst)\<close>: \<open>src\<close> is scanned first, then \<open>dst\<close> is made with
  \<^verbatim>\<open>os.makedirs(dst)\<close>, then the scanned entries are copied. When \<open>dst\<close> lies in a
  directory of \<open>src\<close> that exists at the scan, the copy meets its own output and descends
  until the operating system refuses a path; the call raises. Otherwise the result is a
  copy of what was under \<open>src\<close> at the scan.
\<close>

definition copytree :: "filesystem \<Rightarrow> string \<Rightarrow> string \<Rightarrow> py_exception + filesystem" where
  "copytree fs src dst =
     (case resolve fs src of
        Inl ex \<Rightarrow> Inl ex
      | Inr p \<Rightarrow>
          (case lookup fs p of
             None \<Rightarrow> Inl (OSError ''FileNotFoundError'')
           | Some (File bs) \<Rightarrow> Inl (OSError ''NotADirectoryError'')
           | Some Dir \<Rightarrow>
               (case makedirs_str fs dst of
                  Inl ex \<Rightarrow> Inl ex
                | Inr (fs1, q) \<Rightarrow>
                    if strict_prefix p q \<and> lookup fs (take (Suc (length p)) q) \<noteq> None
                    then Inl ShutilError
                    else Inr (fs1 @ map (\<lambda>(k, n). (q @ drop (length p) k, n))
                                      (filter (\<lambda>(k, n). strict_prefix p k) fs)))))"

text \<open>\<^verbatim>\<open>os.path.join(a, b)\<close>, \<^verbatim>\<open>os.path.basename(s)\<close> and \<^verbatim>\<open>s.rstrip("/")\<close>.\<close>

definition os_path_join :: "string \<Rightarrow> string \<Rightarrow> string" where
  "os_path_join a b =
     (if b \<noteq> [] \<and> hd b = CHR ''/'' then b
      else if a = [] \<or> last a = CHR ''/'' then a @ b
      else a @ ''/'' @ b)"



text \<open>
  The normal form of a path string (\<^verbatim>\<open>os.path.normpath\<close> from the root): empty
  components and \<^verbatim>\<open>.\<close> dropped, \<^verbatim>\<open>..\<close> cancelling the name before it. A path string
  lies under a root when its normal form starts with the root's.
\<close>

definition path_of :: "string \<Rightarrow> path" where
  "path_of s =
     fold (\<lambda>c acc. if c = [] \<or> c = ''.'' then acc
                    else if c = ''..'' then butlast acc
                    else acc @ [c])
          (split_slash s) []"

definition under_root :: "string \<Rightarrow> string \<Rightarrow> bool" where
  "under_root tmp s = prefix (path_of tmp) (path_of s)"

section \<open>Strings of Python\<close>

text \<open>\<^verbatim>\<open>str(n)\<close> for a natural number and an integer.\<close>

fun show_nat :: "nat \<Rightarrow> string" where
  "show_nat n =
     (if n < 10 then [char_of (48 + n)] else show_nat (n div 10) @ [char_of (48 + n mod 10)])"

declare show_nat.simps [simp del]

definition show_int :: "int \<Rightarrow> string" where
  "show_int i = (if i < 0 then ''-'' @ show_nat (nat (- i)) else show_nat (nat i))"

text \<open>
  A Python \<^verbatim>\<open>str\<close> is represented by its UTF-8 encoding, a \<open>char\<close> being one byte.
  \<^verbatim>\<open>s.strip()\<close> removes the white space of Unicode from both ends: U+0009 to U+000D,
  U+001C to U+0020, U+0085, U+00A0, U+1680, U+2000 to U+200A, U+2028, U+2029, U+202F,
  U+205F and U+3000. \<open>py_isspace\<close> holds of the encoding of one such character. No
  encoding of a character ends or begins with the encoding of another, so the characters
  at the ends of a string are found on its bytes.
\<close>

definition py_isspace :: "string \<Rightarrow> bool" where
  "py_isspace s =
     (case map of_char s :: nat list of
        [a] \<Rightarrow> (9 \<le> a \<and> a \<le> 13) \<or> (28 \<le> a \<and> a \<le> 32)
      | [a, b] \<Rightarrow> a = 0xC2 \<and> (b = 0x85 \<or> b = 0xA0)
      | [a, b, c] \<Rightarrow>
          (a = 0xE1 \<and> b = 0x9A \<and> c = 0x80)
          \<or> (a = 0xE2 \<and> b = 0x80 \<and> ((0x80 \<le> c \<and> c \<le> 0x8A) \<or> c = 0xA8 \<or> c = 0xA9 \<or> c = 0xAF))
          \<or> (a = 0xE2 \<and> b = 0x81 \<and> c = 0x9F)
          \<or> (a = 0xE3 \<and> b = 0x80 \<and> c = 0x80)
      | _ \<Rightarrow> False)"

lemma py_isspace_nonempty: "py_isspace (take k s) \<Longrightarrow> s \<noteq> [] \<and> 0 < k"
  by (cases k; cases s) (auto simp: py_isspace_def)

lemma py_isspace_nonempty_end: "py_isspace (drop (length s - k) s) \<Longrightarrow> s \<noteq> [] \<and> 0 < k"
  by (cases k; cases s) (auto simp: py_isspace_def)

function lstrip :: "string \<Rightarrow> string" where
  "lstrip s =
     (if py_isspace (take 1 s) then lstrip (drop 1 s)
      else if py_isspace (take 2 s) then lstrip (drop 2 s)
      else if py_isspace (take 3 s) then lstrip (drop 3 s)
      else s)"
  by pat_completeness auto
termination
  by (relation "measure length") (auto dest: py_isspace_nonempty)

declare lstrip.simps [simp del]

function rstrip :: "string \<Rightarrow> string" where
  "rstrip s =
     (if py_isspace (drop (length s - 1) s) then rstrip (take (length s - 1) s)
      else if py_isspace (drop (length s - 2) s) then rstrip (take (length s - 2) s)
      else if py_isspace (drop (length s - 3) s) then rstrip (take (length s - 3) s)
      else s)"
  by pat_completeness auto
termination
  by (relation "measure length") (auto dest: py_isspace_nonempty_end)

declare rstrip.simps [simp del]

definition strip :: "string \<Rightarrow> string" where
  "strip s = rstrip (lstrip s)"

text \<open>\<^verbatim>\<open>sep.join(xs)\<close>.\<close>

fun join :: "string \<Rightarrow> string list \<Rightarrow> string" where
  "join sep [] = []"
| "join sep [x] = x"
| "join sep (x # y # ys) = x @ sep @ join sep (y # ys)"

section \<open>Upstream check (upstream_check.py)\<close>

text \<open>
  The script reaches the remote through \<^verbatim>\<open>git\<close> subprocesses and keeps its clones in
  fresh temporary directories. What lies outside the script is a parameter: the world is
  the file system together with a rest \<open>'x\<close> (the network, the remote repositories, the
  clones' contents), and an environment gives the three things the script asks of it:
  \<^verbatim>\<open>tempfile.gettempdir()\<close>, \<^verbatim>\<open>tempfile.mkdtemp(prefix=...)\<close> and
  \<^verbatim>\<open>subprocess.run(args, capture_output=True, text=True)\<close> without its check. A
  subprocess that cannot be started is an \<open>Inl\<close> of the environment; one that ran gives
  its return code and its output.
\<close>

type_synonym 'x world = "filesystem \<times> 'x"

record completed =
  returncode :: int
  stdout :: string
  stderr :: string

record 'x env =
  gettempdir :: string
  mkdtemp :: "string \<Rightarrow> 'x world \<Rightarrow> (py_exception + string) \<times> 'x world"
  subprocess :: "string list \<Rightarrow> 'x world \<Rightarrow> (py_exception + completed) \<times> 'x world"

text \<open>\<^verbatim>\<open>subprocess.run(args, check=True, ...)\<close>: a return code other than zero raises.\<close>

definition run_checked ::
  "'x env \<Rightarrow> string list \<Rightarrow> 'x world \<Rightarrow> (py_exception + completed) \<times> 'x world" where
  "run_checked env args w =
     (case subprocess env args w of
        (Inl ex, w') \<Rightarrow> (Inl ex, w')
      | (Inr r, w') \<Rightarrow>
          if returncode r \<noteq> 0 then (Inl (CalledProcessError (returncode r) args (stderr r)), w')
          else (Inr r, w'))"

text \<open>\<^verbatim>\<open>str(e)\<close> of a \<^verbatim>\<open>CalledProcessError\<close> (the command printed without escapes).\<close>

definition str_exception :: "py_exception \<Rightarrow> string" where
  "str_exception ex =
     (case ex of
        CalledProcessError rc cmd err \<Rightarrow>
          ''Command '' @ [CHR 0x27] @ ''['' @ join '', '' (map (\<lambda>a. [CHR 0x27] @ a @ [CHR 0x27]) cmd)
            @ '']'' @ [CHR 0x27] @ '' returned non-zero exit status '' @ show_int rc @ ''.''
      | ValueError m \<Rightarrow> m
      | KeyError m \<Rightarrow> [CHR 0x27] @ m @ [CHR 0x27]
      | TypeError m \<Rightarrow> m
      | OSError m \<Rightarrow> m
      | SameFileError \<Rightarrow> ''SameFileError''
      | ShutilError \<Rightarrow> ''Error'')"

definition clone_to_temp ::
  "'x env \<Rightarrow> string \<Rightarrow> nat \<Rightarrow> 'x world \<Rightarrow> (py_exception + string) \<times> 'x world" where
  "clone_to_temp env repo_url depth w =
     (case mkdtemp env ''skill-sync-'' w of
        (Inl ex, w1) \<Rightarrow> (Inl ex, w1)
      | (Inr tmp_dir, w1) \<Rightarrow>
          (case run_checked env [''git'', ''clone'', ''--depth'', show_nat depth, repo_url, tmp_dir] w1 of
             (Inl ex, w2) \<Rightarrow> (Inl ex, w2)
           | (Inr r, w2) \<Rightarrow> (Inr tmp_dir, w2)))"

definition get_head_sha ::
  "'x env \<Rightarrow> string \<Rightarrow> 'x world \<Rightarrow> (py_exception + string) \<times> 'x world" where
  "get_head_sha env repo_path w =
     (case run_checked env [''git'', ''-C'', repo_path, ''rev-parse'', ''HEAD''] w of
        (Inl ex, w1) \<Rightarrow> (Inl ex, w1)
      | (Inr r, w1) \<Rightarrow> (Inr (strip (stdout r)), w1))"

text \<open>The second half of \<^verbatim>\<open>get_commit_log\<close>: the log of all commits the clone has.\<close>

definition log_fallback ::
  "'x env \<Rightarrow> string \<Rightarrow> 'x world \<Rightarrow> (py_exception + string) \<times> 'x world" where
  "log_fallback env clone_path w =
     (case run_checked env [''git'', ''-C'', clone_path, ''log'', ''--oneline''] w of
        (Inl ex, w1) \<Rightarrow> (Inl ex, w1)
      | (Inr r, w1) \<Rightarrow> (Inr (strip (stdout r)), w1))"

definition get_commit_log ::
  "'x env \<Rightarrow> string \<Rightarrow> string \<Rightarrow> 'x world \<Rightarrow> (py_exception + string) \<times> 'x world" where
  "get_commit_log env clone_path since_sha w =
     (case run_checked env [''git'', ''-C'', clone_path, ''log'', since_sha @ ''..HEAD'', ''--oneline''] w of
        (Inl (CalledProcessError rc cmd err), w1) \<Rightarrow> log_fallback env clone_path w1
      | (Inl ex, w1) \<Rightarrow> (Inl ex, w1)
      | (Inr r, w1) \<Rightarrow>
          if strip (stdout r) \<noteq> [] then (Inr (strip (stdout r)), w1)
          else log_fallback env clone_path w1)"

text \<open>\<^verbatim>\<open>cleanup(clone_path)\<close>; the argument may be \<^verbatim>\<open>None\<close>, which is falsy as the empty
  string is. \<open>tmp\<close> is \<^verbatim>\<open>tempfile.gettempdir()\<close>.\<close>

definition cleanup :: "string \<Rightarrow> filesystem \<Rightarrow> string option \<Rightarrow> py_exception + filesystem" where
  "cleanup tmp fs clone_path =
     (case clone_path of
        None \<Rightarrow> Inr fs
      | Some s \<Rightarrow>
          if s \<noteq> [] \<and> os_path_exists fs s \<and> prefix tmp s then rmtree_str fs s
          else Inr fs)"

text \<open>The dictionary that \<^verbatim>\<open>check_upstream\<close> returns. A key that is absent, and a key
  whose value is \<^verbatim>\<open>None\<close>, are both \<open>None\<close>.\<close>

record check_result =
  has_updates :: "bool option"
  old_sha :: string
  new_sha :: "string option"
  clone_path :: "string option"
  skill_path_in_clone :: "string option"
  commit_log :: "string option"
  error :: "string option"

definition skill_path :: "string \<Rightarrow> string \<Rightarrow> string" where
  "skill_path cp repo_subpath = (if repo_subpath \<noteq> [] then os_path_join cp repo_subpath else cp)"

text \<open>The \<^verbatim>\<open>except\<close> branch of the deeper clone: a fresh shallow clone, and no log.\<close>

definition shallow_again ::
  "'x env \<Rightarrow> string \<Rightarrow> string \<Rightarrow> check_result \<Rightarrow> 'x world
     \<Rightarrow> (py_exception + check_result) \<times> 'x world" where
  "shallow_again env repo_url repo_subpath res w =
     (case clone_to_temp env repo_url 1 w of
        (Inl ex, w1) \<Rightarrow> (Inl ex, w1)
      | (Inr cp, w1) \<Rightarrow>
          (Inr (res\<lparr>clone_path := Some cp,
                     skill_path_in_clone := Some (skill_path cp repo_subpath),
                     commit_log := Some ''(could not retrieve commit log)''\<rparr>), w1))"

text \<open>The branch of \<^verbatim>\<open>check_upstream\<close> taken when the head has changed.\<close>

definition deeper_clone ::
  "'x env \<Rightarrow> string \<Rightarrow> string \<Rightarrow> string \<Rightarrow> string \<Rightarrow> check_result \<Rightarrow> 'x world
     \<Rightarrow> (py_exception + check_result) \<times> 'x world" where
  "deeper_clone env repo_url repo_subpath last_checked_commit cp res w =
     (case cleanup (gettempdir env) (fst w) (Some cp) of
        Inl ex \<Rightarrow> (Inl ex, w)
      | Inr fs1 \<Rightarrow>
          (case clone_to_temp env repo_url 50 (fs1, snd w) of
             (Inl (CalledProcessError rc cmd err), w2) \<Rightarrow> shallow_again env repo_url repo_subpath res w2
           | (Inl ex, w2) \<Rightarrow> (Inl ex, w2)
           | (Inr cp2, w2) \<Rightarrow>
               (let res2 = res\<lparr>clone_path := Some cp2,
                                skill_path_in_clone := Some (skill_path cp2 repo_subpath)\<rparr>
                in case get_commit_log env cp2 last_checked_commit w2 of
                     (Inl (CalledProcessError rc cmd err), w3) \<Rightarrow>
                        shallow_again env repo_url repo_subpath res2 w3
                   | (Inl ex, w3) \<Rightarrow> (Inl ex, w3)
                   | (Inr lg, w3) \<Rightarrow> (Inr (res2\<lparr>commit_log := Some lg\<rparr>), w3))))"

definition check_upstream ::
  "'x env \<Rightarrow> string \<Rightarrow> string \<Rightarrow> string \<Rightarrow> 'x world \<Rightarrow> (py_exception + check_result) \<times> 'x world" where
  "check_upstream env repo_url repo_subpath last_checked_commit w =
     (case clone_to_temp env repo_url 1 w of
        (Inl (CalledProcessError rc cmd err), w1) \<Rightarrow>
          (Inr \<lparr>has_updates = None, old_sha = last_checked_commit, new_sha = None,
                clone_path = None, skill_path_in_clone = None, commit_log = None,
                error = Some (''Failed to clone: '' @
                  (if err \<noteq> [] then err else str_exception (CalledProcessError rc cmd err)))\<rparr>, w1)
      | (Inl ex, w1) \<Rightarrow> (Inl ex, w1)
      | (Inr cp, w1) \<Rightarrow>
          (case get_head_sha env cp w1 of
             (Inl ex, w2) \<Rightarrow> (Inl ex, w2)
           | (Inr head_sha, w2) \<Rightarrow>
               (let has = (head_sha \<noteq> last_checked_commit);
                    res = \<lparr>has_updates = Some has, old_sha = last_checked_commit,
                           new_sha = Some head_sha, clone_path = Some cp,
                           skill_path_in_clone = Some (skill_path cp repo_subpath),
                           commit_log = None, error = None\<rparr>
                in if has then deeper_clone env repo_url repo_subpath last_checked_commit cp res w2
                   else (Inr res, w2))))"

subsection \<open>A model of git\<close>

text \<open>
  To say what a log holds and which revisions a clone can reach, the rest of the world is
  given a model of git with linear histories. A history is the list of its commits, the
  newest first. A remote is a history at an address. \<^verbatim>\<open>git clone --depth d\<close> gives the clone the \<open>d\<close> newest commits;
  \<^verbatim>\<open>git log a..HEAD --oneline\<close> fails when the clone does not have \<open>a\<close> and otherwise
  prints the commits newer than \<open>a\<close>; \<^verbatim>\<open>git log --oneline\<close> prints all the clone has;
  \<^verbatim>\<open>git rev-parse HEAD\<close> prints the newest identifier.
\<close>

record commit =
  c_sha :: string
  c_subject :: string

record git_world =
  remotes :: "(string \<times> commit list) list"
  clones :: "(string \<times> commit list) list"
  next_tmp :: nat

definition oneline :: "commit list \<Rightarrow> string" where
  "oneline cs = concat (map (\<lambda>c. take 7 (c_sha c) @ '' '' @ c_subject c @ [CHR 0x0A]) cs)"

text \<open>
  A revision is named by \<^verbatim>\<open>HEAD\<close> or by a commit identifier, in full or abbreviated to
  at least four hexadecimal digits that begin the identifier of one commit only. Other
  names of git (tags, branches, \<^verbatim>\<open>HEAD~n\<close>) are not part of the model; it serves the
  examples below, and no theorem about all revisions rests on it.
\<close>

definition is_hex :: "char \<Rightarrow> bool" where
  "is_hex c = (let n = (of_char c :: nat) in
     (48 \<le> n \<and> n \<le> 57) \<or> (97 \<le> n \<and> n \<le> 102) \<or> (65 \<le> n \<and> n \<le> 70))"

definition resolve_rev :: "commit list \<Rightarrow> string \<Rightarrow> string option" where
  "resolve_rev h rev_id =
     (if rev_id = ''HEAD'' then (case h of [] \<Rightarrow> None | c # cs \<Rightarrow> Some (c_sha c))
      else if 4 \<le> length rev_id \<and> list_all is_hex rev_id then
        (case filter (\<lambda>c. prefix rev_id (c_sha c)) h of
           [c] \<Rightarrow> Some (c_sha c)
         | _ \<Rightarrow> None)
      else None)"

definition reachable :: "commit list \<Rightarrow> string \<Rightarrow> bool" where
  "reachable h rev_id = (resolve_rev h rev_id \<noteq> None)"

definition commits_since :: "commit list \<Rightarrow> string \<Rightarrow> commit list" where
  "commits_since h rev_id =
     (case resolve_rev h rev_id of
        None \<Rightarrow> []
      | Some full \<Rightarrow> takeWhile (\<lambda>c. c_sha c \<noteq> full) h)"

definition read_nat :: "string \<Rightarrow> nat" where
  "read_nat s = foldl (\<lambda>n c. 10 * n + (of_char c - 48)) 0 s"

definition git_ok :: "string \<Rightarrow> completed" where
  "git_ok out = \<lparr>returncode = 0, stdout = out, stderr = []\<rparr>"

definition git_fatal :: "string \<Rightarrow> completed" where
  "git_fatal msg = \<lparr>returncode = 128, stdout = [], stderr = ''fatal: '' @ msg\<rparr>"

definition git_clone :: "string \<Rightarrow> string \<Rightarrow> string \<Rightarrow> git_world world \<Rightarrow> completed \<times> git_world world" where
  "git_clone depth url dir w =
     (case map_of (remotes (snd w)) url of
        None \<Rightarrow> (git_fatal ''repository does not exist'', w)
      | Some h \<Rightarrow>
          (git_ok [], (fst w, (snd w)\<lparr>clones := AList.update dir (take (read_nat depth) h) (clones (snd w))\<rparr>)))"

definition git_rev_parse_head :: "string \<Rightarrow> git_world world \<Rightarrow> completed" where
  "git_rev_parse_head dir w =
     (case map_of (clones (snd w)) dir of
        None \<Rightarrow> git_fatal ''not a git repository''
      | Some [] \<Rightarrow> git_fatal ''ambiguous argument HEAD''
      | Some (c # cs) \<Rightarrow> git_ok (c_sha c @ [CHR 0x0A]))"

definition git_log_range :: "string \<Rightarrow> string \<Rightarrow> git_world world \<Rightarrow> completed" where
  "git_log_range dir rng w =
     (case map_of (clones (snd w)) dir of
        None \<Rightarrow> git_fatal ''not a git repository''
      | Some h \<Rightarrow>
          (let n = length rng - 6; a = take n rng in
           if drop n rng = ''..HEAD'' \<and> h \<noteq> [] \<and> reachable h a
           then git_ok (oneline (commits_since h a))
           else git_fatal ''bad revision''))"

definition git_log_all :: "string \<Rightarrow> git_world world \<Rightarrow> completed" where
  "git_log_all dir w =
     (case map_of (clones (snd w)) dir of
        None \<Rightarrow> git_fatal ''not a git repository''
      | Some [] \<Rightarrow> git_fatal ''your current branch does not have any commits yet''
      | Some (c # cs) \<Rightarrow> git_ok (oneline (c # cs)))"

definition git_run :: "string list \<Rightarrow> git_world world \<Rightarrow> (py_exception + completed) \<times> git_world world" where
  "git_run args w =
     (case args of
        [g, a1, a2, a3, a4, a5] \<Rightarrow>
          if g = ''git'' \<and> a1 = ''clone'' \<and> a2 = ''--depth'' then
            (case git_clone a3 a4 a5 w of (r, w') \<Rightarrow> (Inr r, w'))
          else if g = ''git'' \<and> a1 = ''-C'' \<and> a3 = ''log'' \<and> a5 = ''--oneline'' then
            (Inr (git_log_range a2 a4 w), w)
          else (Inl (OSError ''FileNotFoundError''), w)
      | [g, a1, a2, a3, a4] \<Rightarrow>
          if g = ''git'' \<and> a1 = ''-C'' \<and> a3 = ''rev-parse'' \<and> a4 = ''HEAD'' then
            (Inr (git_rev_parse_head a2 w), w)
          else if g = ''git'' \<and> a1 = ''-C'' \<and> a3 = ''log'' \<and> a4 = ''--oneline'' then
            (Inr (git_log_all a2 w), w)
          else (Inl (OSError ''FileNotFoundError''), w)
      | _ \<Rightarrow> (Inl (OSError ''FileNotFoundError''), w))"

definition git_mkdtemp :: "string \<Rightarrow> string \<Rightarrow> git_world world \<Rightarrow> (py_exception + string) \<times> git_world world" where
  "git_mkdtemp tmp pre w =
     (let name = tmp @ ''/'' @ pre @ show_nat (next_tmp (snd w)) in
      case makedirs (fst w) (path_of name) of
        Inl ex \<Rightarrow> (Inl ex, w)
      | Inr fs' \<Rightarrow> (Inr name, (fs', (snd w)\<lparr>next_tmp := Suc (next_tmp (snd w))\<rparr>)))"

definition git_env :: "string \<Rightarrow> git_world env" where
  "git_env tmp = \<lparr>gettempdir = tmp, mkdtemp = git_mkdtemp tmp, subprocess = git_run\<rparr>"

text \<open>An environment in which \<^verbatim>\<open>git\<close> is not installed: no subprocess starts.\<close>

definition no_git_env :: "string \<Rightarrow> git_world env" where
  "no_git_env tmp = \<lparr>gettempdir = tmp, mkdtemp = git_mkdtemp tmp,
     subprocess = (\<lambda>args w. (Inl (OSError ''FileNotFoundError''), w))\<rparr>"



definition tmp_fs :: filesystem where
  "tmp_fs = [([''tmp''], Dir), ([''tmpfoo''], Dir), ([''tmpfoo'', ''keep.txt''], File [104, 105])]"

definition no_remote_world :: "git_world world" where
  "no_remote_world = ([([''tmp''], Dir)], \<lparr>remotes = [], clones = [], next_tmp = 0\<rparr>)"

subsection \<open>Upstream check: an unreachable remote, the commit log, the clean-up\<close>

lemma show_nat_1: "show_nat 1 = ''1''" "show_nat (Suc 0) = ''1''"
  by code_simp+

text \<open>
  C3, as stated, fails: when \<^verbatim>\<open>git\<close> cannot be started the clone fails with an
  exception that is not \<^verbatim>\<open>CalledProcessError\<close>, and \<^verbatim>\<open>check_upstream\<close> raises it.
\<close>

theorem check_upstream_no_git_counterexample:
  "fst (clone_to_temp (no_git_env ''/tmp'') ''https://example.invalid/repo'' 1 no_remote_world)
     = Inl (OSError ''FileNotFoundError'')
   \<and> fst (check_upstream (no_git_env ''/tmp'') ''https://example.invalid/repo'' [] ''abc'' no_remote_world)
     = Inl (OSError ''FileNotFoundError'')"
  by code_simp

text \<open>
  C3, amended. When the temporary directory was made and \<^verbatim>\<open>git clone\<close> ran and returned
  a code other than zero (the remote is unreachable or is no repository),
  \<^verbatim>\<open>check_upstream\<close> returns, without raising, a result with \<^verbatim>\<open>has_updates\<close> unknown,
  an error text that begins \<^verbatim>\<open>Failed to clone: \<close>, \<^verbatim>\<open>old_sha\<close> the given revision and
  no clone path. When the clone raises anything other than \<^verbatim>\<open>CalledProcessError\<close> (the
  temporary directory cannot be made, \<^verbatim>\<open>git\<close> cannot be started, the address is refused
  by the subprocess call), \<^verbatim>\<open>check_upstream\<close> raises that exception.
\<close>

theorem check_upstream_clone_failure:
  "(mkdtemp env ''skill-sync-'' w = (Inr tmp_dir, w1)
      \<and> subprocess env [''git'', ''clone'', ''--depth'', ''1'', repo_url, tmp_dir] w1 = (Inr r, w2)
      \<and> returncode r \<noteq> 0
    \<longrightarrow> check_upstream env repo_url repo_subpath last_checked_commit w =
         (Inr \<lparr>has_updates = None, old_sha = last_checked_commit, new_sha = None,
               clone_path = None, skill_path_in_clone = None, commit_log = None,
               error = Some (''Failed to clone: '' @
                 (if stderr r \<noteq> [] then stderr r
                  else str_exception (CalledProcessError (returncode r)
                         [''git'', ''clone'', ''--depth'', ''1'', repo_url, tmp_dir] (stderr r))))\<rparr>, w2))
   \<and> (clone_to_temp env repo_url 1 w = (Inl ex, w')
      \<and> (\<forall>rc cmd err. ex \<noteq> CalledProcessError rc cmd err)
    \<longrightarrow> check_upstream env repo_url repo_subpath last_checked_commit w = (Inl ex, w'))"
proof (intro conjI impI)
  assume a: "mkdtemp env ''skill-sync-'' w = (Inr tmp_dir, w1)
      \<and> subprocess env [''git'', ''clone'', ''--depth'', ''1'', repo_url, tmp_dir] w1 = (Inr r, w2)
      \<and> returncode r \<noteq> 0"
  then have "clone_to_temp env repo_url 1 w =
      (Inl (CalledProcessError (returncode r)
              [''git'', ''clone'', ''--depth'', ''1'', repo_url, tmp_dir] (stderr r)), w2)"
    by (simp add: clone_to_temp_def run_checked_def show_nat_1)
  then show "check_upstream env repo_url repo_subpath last_checked_commit w =
         (Inr \<lparr>has_updates = None, old_sha = last_checked_commit, new_sha = None,
               clone_path = None, skill_path_in_clone = None, commit_log = None,
               error = Some (''Failed to clone: '' @
                 (if stderr r \<noteq> [] then stderr r
                  else str_exception (CalledProcessError (returncode r)
                         [''git'', ''clone'', ''--depth'', ''1'', repo_url, tmp_dir] (stderr r))))\<rparr>, w2)"
    by (simp add: check_upstream_def)
next
  assume "clone_to_temp env repo_url 1 w = (Inl ex, w')
      \<and> (\<forall>rc cmd err. ex \<noteq> CalledProcessError rc cmd err)"
  then show "check_upstream env repo_url repo_subpath last_checked_commit w = (Inl ex, w')"
    by (cases ex) (simp_all add: check_upstream_def)
qed

theorem check_upstream_clone_failure_witness:
  "check_upstream (git_env ''/tmp'') ''/nonexistent'' [] ''abc'' no_remote_world =
       (Inr \<lparr>has_updates = None, old_sha = ''abc'', new_sha = None,
             clone_path = None, skill_path_in_clone = None, commit_log = None,
             error = Some ''Failed to clone: fatal: repository does not exist''\<rparr>,
        ([([''tmp''], Dir), ([''tmp'', ''skill-sync-0''], Dir)], \<lparr>remotes = [], clones = [], next_tmp = 1\<rparr>))
   \<and> check_upstream (no_git_env ''/tmp'') ''/nonexistent'' [] ''abc'' no_remote_world =
       (Inl (OSError ''FileNotFoundError''),
        ([([''tmp''], Dir), ([''tmp'', ''skill-sync-0''], Dir)], \<lparr>remotes = [], clones = [], next_tmp = 1\<rparr>))"
proof -
  let ?w1 = "([([''tmp''], Dir), ([''tmp'', ''skill-sync-0''], Dir)], \<lparr>remotes = [], clones = [], next_tmp = 1\<rparr>)"
  have m: "mkdtemp (git_env ''/tmp'') ''skill-sync-'' no_remote_world = (Inr ''/tmp/skill-sync-0'', ?w1)"
    by code_simp
  have g: "subprocess (git_env ''/tmp'')
      [''git'', ''clone'', ''--depth'', ''1'', ''/nonexistent'', ''/tmp/skill-sync-0''] ?w1
     = (Inr (git_fatal ''repository does not exist''), ?w1)"
    by code_simp
  have rc: "returncode (git_fatal ''repository does not exist'') \<noteq> 0"
    by (simp add: git_fatal_def)
  have c: "clone_to_temp (no_git_env ''/tmp'') ''/nonexistent'' 1 no_remote_world
     = (Inl (OSError ''FileNotFoundError''), ?w1)"
    by code_simp
  have n: "\<forall>rc cmd err. OSError ''FileNotFoundError'' \<noteq> CalledProcessError rc cmd err"
    by simp
  from check_upstream_clone_failure
    [of "git_env ''/tmp''" no_remote_world "''/tmp/skill-sync-0''" ?w1 "''/nonexistent''"
        "git_fatal ''repository does not exist''" ?w1 "[]" "''abc''"]
    m g rc
  have 1: "check_upstream (git_env ''/tmp'') ''/nonexistent'' [] ''abc'' no_remote_world =
       (Inr \<lparr>has_updates = None, old_sha = ''abc'', new_sha = None,
             clone_path = None, skill_path_in_clone = None, commit_log = None,
             error = Some ''Failed to clone: fatal: repository does not exist''\<rparr>, ?w1)"
    by (simp add: git_fatal_def)
  from check_upstream_clone_failure
    [of "no_git_env ''/tmp''" no_remote_world _ _ "''/nonexistent''" _ _ "[]" "''abc''"
        "OSError ''FileNotFoundError''" ?w1]
    c n
  have 2: "check_upstream (no_git_env ''/tmp'') ''/nonexistent'' [] ''abc'' no_remote_world =
       (Inl (OSError ''FileNotFoundError''), ?w1)"
    by blast
  from 1 2 show ?thesis by simp
qed





text \<open>
  C8 at a failing input: with the temporary root \<^verbatim>\<open>/tmp\<close>, the directory \<^verbatim>\<open>/tmpfoo\<close>
  is not under the root, its name starts with the root's, and \<^verbatim>\<open>cleanup\<close> deletes it
  with the file in it.
\<close>

theorem cleanup_deletes_sibling:
  "\<not> under_root ''/tmp'' ''/tmpfoo''
   \<and> lookup tmp_fs [''tmpfoo'', ''keep.txt''] = Some (File [104, 105])
   \<and> cleanup ''/tmp'' tmp_fs (Some ''/tmpfoo'') = Inr [([''tmp''], Dir)]"
  by code_simp

text \<open>What the guard of \<^verbatim>\<open>cleanup\<close> does ensure: a path whose string does not start with
  the root's string is left alone.\<close>

lemma cleanup_guard: "\<not> prefix tmp s \<Longrightarrow> cleanup tmp fs (Some s) = Inr fs"
  by (simp add: cleanup_def)

section \<open>Diff generator (diff_generator.py)\<close>

subsection \<open>Binary or text\<close>

text \<open>
  \<^verbatim>\<open>chunk.decode("utf-8")\<close> succeeds exactly on the well-formed byte sequences of
  UTF-8: no overlong forms, no surrogates, nothing above U+10FFFF.
\<close>

definition is_cont :: "byte \<Rightarrow> bool" where
  "is_cont c = (0x80 \<le> c \<and> c \<le> 0xBF)"

definition second_of_three :: "byte \<Rightarrow> byte \<Rightarrow> bool" where
  "second_of_three b c =
     (if b = 0xE0 then 0xA0 \<le> c \<and> c \<le> 0xBF
      else if b = 0xED then 0x80 \<le> c \<and> c \<le> 0x9F
      else is_cont c)"

definition second_of_four :: "byte \<Rightarrow> byte \<Rightarrow> bool" where
  "second_of_four b c =
     (if b = 0xF0 then 0x90 \<le> c \<and> c \<le> 0xBF
      else if b = 0xF4 then 0x80 \<le> c \<and> c \<le> 0x8F
      else is_cont c)"

fun utf8_valid :: "byte list \<Rightarrow> bool" where
  "utf8_valid [] = True"
| "utf8_valid (b # bs) =
     (if b < 0x80 then utf8_valid bs
      else if 0xC2 \<le> b \<and> b \<le> 0xDF then
        (case bs of c1 # r \<Rightarrow> is_cont c1 \<and> utf8_valid r | _ \<Rightarrow> False)
      else if 0xE0 \<le> b \<and> b \<le> 0xEF then
        (case bs of c1 # c2 # r \<Rightarrow> second_of_three b c1 \<and> is_cont c2 \<and> utf8_valid r | _ \<Rightarrow> False)
      else if 0xF0 \<le> b \<and> b \<le> 0xF4 then
        (case bs of c1 # c2 # c3 # r \<Rightarrow>
           second_of_four b c1 \<and> is_cont c2 \<and> is_cont c3 \<and> utf8_valid r | _ \<Rightarrow> False)
      else False)"

text \<open>\<^verbatim>\<open>is_binary_file(filepath, check_bytes)\<close>; the default of \<^verbatim>\<open>check_bytes\<close> is 8192.
  Reading raises only \<^verbatim>\<open>OSError\<close>, which the function catches.\<close>

definition is_binary_file :: "filesystem \<Rightarrow> path \<Rightarrow> nat \<Rightarrow> bool" where
  "is_binary_file fs filepath check_bytes =
     (case read_bytes fs filepath of
        Inl ex \<Rightarrow> True
      | Inr content \<Rightarrow>
          (let chunk = take check_bytes content in
           if 0 \<in> set chunk then True else \<not> utf8_valid chunk))"

text \<open>A directory with a PNG header followed by null bytes, and a short UTF-8 text.\<close>

definition icon_fs :: filesystem where
  "icon_fs = [([''local''], Dir),
              ([''local'', ''icon.png''], File [0x89, 0x50, 0x4E, 0x47, 0x0D, 0x0A, 0x1A, 0x0A, 0x00, 0x00]),
              ([''local'', ''SKILL.md''], File [0x23, 0x20, 0xC3, 0xA9, 0x0A])]"

lemma read_bytes_raises: "read_bytes fs p = Inl ex \<Longrightarrow> \<exists>m. ex = OSError m"
  by (auto simp: read_bytes_def split: option.splits node.splits)

text \<open>
  C6. A readable file with a null byte among its first 8192 bytes is binary; a readable
  file of fewer than 8192 bytes that is well-formed UTF-8 text (and so holds no null
  byte) is not binary; a path whose read raises is binary.
\<close>

theorem is_binary_file_classes:
  "(read_bytes fs p = Inr bs \<and> 0 \<in> set (take 8192 bs) \<longrightarrow> is_binary_file fs p 8192)
   \<and> (read_bytes fs p = Inr bs \<and> length bs < 8192 \<and> utf8_valid bs \<and> 0 \<notin> set bs
        \<longrightarrow> \<not> is_binary_file fs p 8192)
   \<and> (read_bytes fs p = Inl ex \<longrightarrow> is_binary_file fs p 8192)"
  by (simp add: is_binary_file_def Let_def)

theorem is_binary_file_classes_witness:
  "is_binary_file icon_fs [''local'', ''icon.png''] 8192
   \<and> \<not> is_binary_file icon_fs [''local'', ''SKILL.md''] 8192
   \<and> is_binary_file icon_fs [''local'', ''missing''] 8192"
proof -
  have 1: "read_bytes icon_fs [''local'', ''icon.png''] = Inr [0x89, 0x50, 0x4E, 0x47, 0x0D, 0x0A, 0x1A, 0x0A, 0x00, 0x00]"
    by (simp add: read_bytes_def lookup_def icon_fs_def)
  have 2: "read_bytes icon_fs [''local'', ''SKILL.md''] = Inr [0x23, 0x20, 0xC3, 0xA9, 0x0A]"
    by (simp add: read_bytes_def lookup_def icon_fs_def)
  have 3: "read_bytes icon_fs [''local'', ''missing''] = Inl (OSError ''FileNotFoundError'')"
    by (simp add: read_bytes_def lookup_def icon_fs_def)
  have v: "utf8_valid [0x23, 0x20, 0xC3, 0xA9, 0x0A]"
    by (simp add: is_cont_def)
  from is_binary_file_classes [of icon_fs "[''local'', ''icon.png'']" "[0x89, 0x50, 0x4E, 0x47, 0x0D, 0x0A, 0x1A, 0x0A, 0x00, 0x00]"] 1
  have a: "is_binary_file icon_fs [''local'', ''icon.png''] 8192" by simp
  from is_binary_file_classes [of icon_fs "[''local'', ''SKILL.md'']" "[0x23, 0x20, 0xC3, 0xA9, 0x0A]"] 2 v
  have b: "\<not> is_binary_file icon_fs [''local'', ''SKILL.md''] 8192" by simp
  from is_binary_file_classes [of icon_fs "[''local'', ''missing'']" _ "OSError ''FileNotFoundError''"] 3
  have c: "is_binary_file icon_fs [''local'', ''missing''] 8192" by simp
  from a b c show ?thesis by simp
qed

section \<open>Patch applier (patch_applier.py)\<close>


definition restore_backup :: "filesystem \<Rightarrow> string \<Rightarrow> string \<Rightarrow> py_exception + filesystem" where
  "restore_backup fs backup_path local_dir =
     (case (if os_path_exists fs local_dir then rmtree_str fs local_dir else Inr fs) of
        Inl ex \<Rightarrow> Inl ex
      | Inr fs1 \<Rightarrow> copytree fs1 backup_path local_dir)"




definition mutated_fs :: filesystem where
  "mutated_fs =
     [([''local''], Dir),
      ([''local'', ''SKILL.md''], File [66, 82, 79, 75, 69, 78]),
      ([''local'', ''extra.txt''], File [5]),
      ([''upstream''], Dir),
      ([''upstream'', ''SKILL.md''], File [4, 5, 6]),
      ([''upstream'', ''new_script.py''], File [7]),
      ([''upstream'', ''scripts''], Dir),
      ([''upstream'', ''scripts'', ''helper.py''], File [8]),
      ([''backup''], Dir), ([''backup'', ''local-T''], Dir),
      ([''backup'', ''local-T'', ''SKILL.md''], File [1, 2]),
      ([''backup'', ''local-T'', ''old_file.txt''], File [3])]"


subsection \<open>Facts about the file system\<close>

lemma lookup_root [simp]: "lookup fs [] = Some Dir"
  by (simp add: lookup_def)













subsection \<open>Facts about path strings\<close>




lemma walk_path_same: "walk_path False fs cur comps = Inr (fs1, p) \<Longrightarrow> fs1 = fs"
proof (induction comps arbitrary: cur)
  case Nil
  then show ?case by simp
next
  case (Cons c cs)
  then show ?case
    by (auto split: if_splits option.splits node.splits)
qed



















subsection \<open>Backup and restore\<close>












text \<open>The directory spelled with a \<^verbatim>\<open>.\<close> at the end is emptied by \<^verbatim>\<open>rmtree\<close>, which then
  raises at the removal of the directory itself; the restore does not return. Spelled with
  a slash at the end, or with a \<^verbatim>\<open>.\<close> in the middle, it is restored.\<close>

lemma restore_backup_dot_raises:
  "restore_backup mutated_fs ''/backup/local-T'' ''/local/.'' = Inl (OSError ''Invalid argument'')"
  "restore_backup mutated_fs ''/backup/local-T'' ''local/.'' = Inl (OSError ''Invalid argument'')"
  by code_simp+

lemma restore_backup_spellings:
  "restore_backup mutated_fs ''/backup/local-T'' ''/local/'' = restore_backup mutated_fs ''/backup/local-T'' ''/local''"
  "restore_backup mutated_fs ''/backup/local-T'' ''/./local'' = restore_backup mutated_fs ''/backup/local-T'' ''/local''"
  "restore_backup mutated_fs ''/backup/local-T'' ''/upstream/../local'' = restore_backup mutated_fs ''/backup/local-T'' ''/local''"
  by code_simp+

end
